theory Spec2Isabelle
  imports Complex_Main "HOL-Library.Log_Nat"
begin

section \<open>Python values used by the service\<close>

text \<open>
  A Python \<open>str\<close> is a sequence of Unicode code points: \<open>len\<close> counts code points and
  \<open>ord\<close> returns one. A string is therefore a list of natural numbers, and an ASCII
  literal of the source is written \<open>asc ''...''\<close>.
\<close>

type_synonym pystr = "nat list"

definition asc :: "string \<Rightarrow> pystr" where
  "asc s = map of_char s"

text \<open>
  A finite Python \<open>float\<close> (IEEE 754 binary64) is a pair of a mantissa and a binary
  exponent; \<open>fval\<close> is the number it stands for. Python compares a float with an
  integer by their exact values, so comparisons are made on \<open>fval\<close>.
\<close>

datatype float = Float (mantissa: int) (exponent: int)

definition fval :: "float \<Rightarrow> rat" where
  "fval x = (if 0 \<le> exponent x then of_int (mantissa x) * 2 ^ nat (exponent x)
             else of_int (mantissa x) / 2 ^ nat (- exponent x))"

text \<open>\<open>rdiv_half_even p d\<close>: the integer nearest to \<open>p / d\<close> (for \<open>0 < d\<close>), ties to even.\<close>

definition rdiv_half_even :: "int \<Rightarrow> int \<Rightarrow> int" where
  "rdiv_half_even p d =
     (let q = p div d; r = p mod d
      in if 2 * r < d then q else if d < 2 * r then q + 1 else if even q then q else q + 1)"

text \<open>
  \<open>round53 m e\<close>: the binary64 nearest to \<open>m * 2 ^ e\<close>, ties to even: a mantissa of more
  than 53 bits is cut to 53 bits. (Normal range only: every number of this service lies
  between \<open>0.9\<close> and \<open>2 ^ 64\<close>.)
\<close>

definition round53 :: "int \<Rightarrow> int \<Rightarrow> float" where
  "round53 m e =
     (let s = bitlen \<bar>m\<bar> - 53
      in if s \<le> 0 then Float m e
         else Float (sgn m * rdiv_half_even \<bar>m\<bar> (2 ^ nat s)) (e + s))"

text \<open>\<open>float(n)\<close> for a Python int, and the product of two floats.\<close>

definition float_of_int :: "int \<Rightarrow> float" where
  "float_of_int n = round53 n 0"

definition float_mul :: "float \<Rightarrow> float \<Rightarrow> float" where
  "float_mul a b = round53 (mantissa a * mantissa b) (exponent a + exponent b)"

text \<open>The literal \<open>0.9\<close> of the source: the binary64 \<open>0x1.ccccccccccccdp-1\<close>.\<close>

definition float_0_9 :: float where
  "float_0_9 = Float 8106479329266893 (- 53)"

text \<open>Decimal digits of a natural number, as Python prints them.\<close>

fun digits10 :: "nat \<Rightarrow> pystr" where
  "digits10 n = (if n < 10 then [48 + n] else digits10 (n div 10) @ [48 + n mod 10])"

declare digits10.simps [simp del]

text \<open>
  The format specification \<open>.1f\<close> on a float: the decimal with one digit after the point
  that is nearest to the float's exact value, ties to even.
\<close>

definition fmt_1f :: "float \<Rightarrow> pystr" where
  "fmt_1f x =
     (let m = \<bar>mantissa x\<bar>; e = exponent x;
          k = (if 0 \<le> e then 10 * m * 2 ^ nat e else rdiv_half_even (10 * m) (2 ^ nat (- e)))
      in (if mantissa x < 0 then asc ''-'' else []) @
         digits10 (nat (k div 10)) @ asc ''.'' @ digits10 (nat (k mod 10)))"

section \<open>schemas.py: the entities\<close>

text \<open>
  A stored value: what a Python dict handed to the document store may hold. \<open>VObjectId\<close>
  is the identifier object the store puts under \<open>_id\<close>.
\<close>

datatype val = VNone | VBool bool | VInt int | VFloat float | VStr pystr | VObjectId nat
  | VList "val list" | VDict "(pystr \<times> val) list"

type_synonym document = "(pystr \<times> val) list"

record Holding =
  symbol :: pystr
  quantity :: float
  avg_price :: float

record Portfolio =
  user_id :: pystr
  holdings :: "Holding list"
  cash_sar :: float

record Order =
  user_id :: pystr
  symbol :: pystr
  side :: pystr
  quantity :: float
  price :: float
  status :: pystr

record Strategy =
  user_id :: pystr
  name :: pystr
  params :: document
  active :: bool

text \<open>The analysis request and its insight.\<close>

record AnalysisRequest =
  symbols :: "pystr list"
  language :: pystr

record AnalysisInsight =
  symbol :: pystr
  rsi :: float
  sma_14 :: float
  signal :: pystr
  summary :: pystr

section \<open>main.py: analyze\<close>

text \<open>\<open>sum(ord(c) for c in sym)\<close>\<close>

definition ord_sum :: "pystr \<Rightarrow> int" where
  "ord_sum symb = sum_list (map int symb)"

text \<open>\<open>rsi = (sum(ord(c) for c in sym) % 100) * 0.9\<close>\<close>

definition rsi_of :: "pystr \<Rightarrow> float" where
  "rsi_of symb = float_mul (float_of_int (ord_sum symb mod 100)) float_0_9"

text \<open>\<open>sma_14 = 50 + (len(sym) * 2)\<close>, a Python int.\<close>

definition sma_14_of :: "pystr \<Rightarrow> int" where
  "sma_14_of symb = 50 + int (length symb) * 2"

text \<open>\<open>signal = "buy" if rsi < 30 else ("sell" if rsi > 70 else "hold")\<close>\<close>

definition signal_of :: "float \<Rightarrow> pystr" where
  "signal_of r =
     (if fval r < 30 then asc ''buy'' else (if 70 < fval r then asc ''sell'' else asc ''hold''))"

text \<open>
  The two f-strings. The Arabic text is given by its code points; \<open>{sma_14:.1f}\<close>
  formats the int \<open>sma_14\<close> through its float.
\<close>

definition summary_of :: "pystr \<Rightarrow> pystr \<Rightarrow> float \<Rightarrow> int \<Rightarrow> pystr \<Rightarrow> pystr" where
  "summary_of lang symb r sma sig =
     (if lang = asc ''ar'' then
        [1578, 1581, 1604, 1610, 1604, 32] @ symb @
        [58, 32, 1605, 1572, 1588, 1585, 32, 1575, 1604, 1602, 1608, 1577, 32,
         1575, 1604, 1606, 1587, 1576, 1610, 1577, 32] @ fmt_1f r @
        [1548, 32, 1605, 1578, 1608, 1587, 1591, 32, 1605, 1578, 1581, 1585, 1603, 32,
         49, 52, 32, 1610, 1608, 1605, 32] @ fmt_1f (float_of_int sma) @
        [46, 32, 1575, 1604, 1578, 1608, 1589, 1610, 1577, 58, 32] @
        (if sig = asc ''buy'' then [1588, 1585, 1575, 1569]
         else (if sig = asc ''sell'' then [1576, 1610, 1593]
               else [1575, 1581, 1578, 1601, 1575, 1592])) @
        asc ''.''
      else
        symb @ asc '' analysis: RSI '' @ fmt_1f r @ asc '', 14-day SMA '' @
        fmt_1f (float_of_int sma) @ asc ''. Recommendation: '' @ sig @ asc ''.'')"

text \<open>
  The body of the loop for one symbol. The constructor \<open>AnalysisInsight(...)\<close> stores the
  int \<open>sma_14\<close> in a float field.
\<close>

definition analyze_symbol :: "pystr \<Rightarrow> pystr \<Rightarrow> AnalysisInsight" where
  "analyze_symbol lang symb =
     (let r = rsi_of symb;
          sma = sma_14_of symb;
          sig = signal_of r;
          summ = summary_of lang symb r sma sig
      in \<lparr>symbol = symb, rsi = r, sma_14 = float_of_int sma, signal = sig, summary = summ\<rparr>)"

text \<open>\<open>for sym in request.symbols: ... insights.append(...)\<close>\<close>

fun analyze_loop :: "pystr \<Rightarrow> pystr list \<Rightarrow> AnalysisInsight list \<Rightarrow> AnalysisInsight list" where
  "analyze_loop lang [] insights = insights"
| "analyze_loop lang (symb # symbs) insights =
     analyze_loop lang symbs (insights @ [analyze_symbol lang symb])"

definition analyze :: "AnalysisRequest \<Rightarrow> AnalysisInsight list" where
  "analyze request = analyze_loop (language request) (symbols request) []"

subsection \<open>The summary templates as the specification words them\<close>

text \<open>
  The English template
  \<^verbatim>\<open>{symbol} analysis: RSI {rsi:.1f}, 14-day SMA {sma_14:.1f}. Recommendation: {signal}.\<close>
  and the Arabic one, which translates the fixed words and maps the signal to an Arabic
  recommendation word.
\<close>

definition english_template :: "pystr \<Rightarrow> float \<Rightarrow> float \<Rightarrow> pystr \<Rightarrow> pystr" where
  "english_template symb r sma sig =
     symb @ asc '' analysis: RSI '' @ fmt_1f r @ asc '', 14-day SMA '' @ fmt_1f sma @
     asc ''. Recommendation: '' @ sig @ asc ''.''"

definition arabic_word :: "pystr \<Rightarrow> pystr option" where
  "arabic_word sig =
     (if sig = asc ''buy'' then Some [1588, 1585, 1575, 1569]
      else if sig = asc ''sell'' then Some [1576, 1610, 1593]
      else if sig = asc ''hold'' then Some [1575, 1581, 1578, 1601, 1575, 1592]
      else None)"

definition arabic_template :: "pystr \<Rightarrow> float \<Rightarrow> float \<Rightarrow> pystr \<Rightarrow> pystr" where
  "arabic_template symb r sma word =
     [1578, 1581, 1604, 1610, 1604, 32] @ symb @
     [58, 32, 1605, 1572, 1588, 1585, 32, 1575, 1604, 1602, 1608, 1577, 32,
      1575, 1604, 1606, 1587, 1576, 1610, 1577, 32] @ fmt_1f r @
     [1548, 32, 1605, 1578, 1608, 1587, 1591, 32, 1605, 1578, 1581, 1585, 1603, 32,
      49, 52, 32, 1610, 1608, 1605, 32] @ fmt_1f sma @
     [46, 32, 1575, 1604, 1578, 1608, 1589, 1610, 1577, 58, 32] @ word @ [46]"

section \<open>schemas.py: validation\<close>

text \<open>
  A field of an inbound document as the model class reads it: absent, present with a
  value that cannot be read as the field's type, or present with a value of that type.
  Numbers are finite floats.
\<close>

datatype 'a field = Missing | Invalid | Given 'a

datatype loc_item = Key pystr | Index nat

datatype error_type = ErrMissing | ErrType | ErrGreaterThanEqual | ErrGreaterThan

type_synonym error_details = "(loc_item list \<times> error_type) list"

datatype ValidationError = ValidationError (errors: error_details)

text \<open>\<open>Field(...)\<close>: a required field.\<close>

definition required :: "loc_item list \<Rightarrow> 'a field \<Rightarrow> error_details + 'a" where
  "required loc f =
     (case f of Missing \<Rightarrow> Inl [(loc, ErrMissing)] | Invalid \<Rightarrow> Inl [(loc, ErrType)]
      | Given v \<Rightarrow> Inr v)"

text \<open>\<open>Field(d)\<close>: a field with the default \<open>d\<close>.\<close>

definition with_default :: "loc_item list \<Rightarrow> 'a \<Rightarrow> 'a field \<Rightarrow> error_details + 'a" where
  "with_default loc d f =
     (case f of Missing \<Rightarrow> Inr d | Invalid \<Rightarrow> Inl [(loc, ErrType)] | Given v \<Rightarrow> Inr v)"

text \<open>The constraints \<open>ge=0\<close> and \<open>gt=0\<close> on a float that has been read.\<close>

definition ge_0 :: "loc_item list \<Rightarrow> error_details + float \<Rightarrow> error_details + float" where
  "ge_0 loc r =
     (case r of Inl e \<Rightarrow> Inl e
      | Inr v \<Rightarrow> if 0 \<le> fval v then Inr v else Inl [(loc, ErrGreaterThanEqual)])"

definition gt_0 :: "loc_item list \<Rightarrow> error_details + float \<Rightarrow> error_details + float" where
  "gt_0 loc r =
     (case r of Inl e \<Rightarrow> Inl e
      | Inr v \<Rightarrow> if 0 < fval v then Inr v else Inl [(loc, ErrGreaterThan)])"

definition errors_of :: "error_details + 'a \<Rightarrow> error_details" where
  "errors_of r = (case r of Inl e \<Rightarrow> e | Inr v \<Rightarrow> [])"

record Holding_doc =
  h_symbol :: "pystr field"
  h_quantity :: "float field"
  h_avg_price :: "float field"

record Portfolio_doc =
  p_user_id :: "pystr field"
  p_holdings :: "Holding_doc list field"
  p_cash_sar :: "float field"

record Order_doc =
  o_user_id :: "pystr field"
  o_symbol :: "pystr field"
  o_side :: "pystr field"
  o_quantity :: "float field"
  o_price :: "float field"
  o_status :: "pystr field"

record AnalysisRequest_doc =
  a_symbols :: "pystr field list field"
  a_language :: "pystr field"

text \<open>
  \<open>class Holding\<close>: \<open>symbol: str\<close>, \<open>quantity: float = Field(..., ge=0)\<close>,
  \<open>avg_price: float = Field(..., ge=0)\<close>. Every field is checked and all errors are
  reported, in the order of the fields; \<open>loc\<close> is where the document sits in its parent.
\<close>

definition validate_Holding_at :: "loc_item list \<Rightarrow> Holding_doc \<Rightarrow> error_details + Holding" where
  "validate_Holding_at loc d =
     (case (required (loc @ [Key (asc ''symbol'')]) (h_symbol d),
            ge_0 (loc @ [Key (asc ''quantity'')])
              (required (loc @ [Key (asc ''quantity'')]) (h_quantity d)),
            ge_0 (loc @ [Key (asc ''avg_price'')])
              (required (loc @ [Key (asc ''avg_price'')]) (h_avg_price d))) of
        (Inr s, Inr q, Inr a) \<Rightarrow>
          Inr \<lparr>Holding.symbol = s, Holding.quantity = q, avg_price = a\<rparr>
      | (s, q, a) \<Rightarrow> Inl (errors_of s @ errors_of q @ errors_of a))"

definition validate_Holding :: "Holding_doc \<Rightarrow> ValidationError + Holding" where
  "validate_Holding d =
     (case validate_Holding_at [] d of Inl e \<Rightarrow> Inl (ValidationError e) | Inr h \<Rightarrow> Inr h)"

text \<open>The items of \<open>holdings: List[Holding]\<close>, each at its index.\<close>

fun validate_holdings :: "nat \<Rightarrow> Holding_doc list \<Rightarrow> error_details + Holding list" where
  "validate_holdings i [] = Inr []"
| "validate_holdings i (d # ds) =
     (case (validate_Holding_at [Key (asc ''holdings''), Index i] d,
            validate_holdings (Suc i) ds) of
        (Inr h, Inr hs) \<Rightarrow> Inr (h # hs)
      | (h, hs) \<Rightarrow> Inl (errors_of h @ errors_of hs))"

text \<open>
  \<open>class Portfolio\<close>: \<open>user_id: str\<close>, \<open>holdings: List[Holding] = Field(default_factory=list)\<close>,
  \<open>cash_sar: float = Field(0.0, ge=0)\<close>.
\<close>

definition validate_Portfolio :: "Portfolio_doc \<Rightarrow> ValidationError + Portfolio" where
  "validate_Portfolio d =
     (case (required [Key (asc ''user_id'')] (p_user_id d),
            (case p_holdings d of Missing \<Rightarrow> Inr []
             | Invalid \<Rightarrow> Inl [([Key (asc ''holdings'')], ErrType)]
             | Given hs \<Rightarrow> validate_holdings 0 hs),
            (case p_cash_sar d of Missing \<Rightarrow> Inr (float_of_int 0)
             | f \<Rightarrow> ge_0 [Key (asc ''cash_sar'')] (required [Key (asc ''cash_sar'')] f))) of
        (Inr u, Inr hs, Inr c) \<Rightarrow>
          Inr \<lparr>Portfolio.user_id = u, holdings = hs, cash_sar = c\<rparr>
      | (u, hs, c) \<Rightarrow> Inl (ValidationError (errors_of u @ errors_of hs @ errors_of c)))"

text \<open>
  \<open>class Order\<close>: \<open>user_id: str\<close>, \<open>symbol: str\<close>, \<open>side: str = Field(...)\<close>,
  \<open>quantity: float = Field(..., gt=0)\<close>, \<open>price: float = Field(..., gt=0)\<close>,
  \<open>status: str = Field("submitted")\<close>.
\<close>

definition validate_Order :: "Order_doc \<Rightarrow> ValidationError + Order" where
  "validate_Order d =
     (case (required [Key (asc ''user_id'')] (o_user_id d),
            required [Key (asc ''symbol'')] (o_symbol d),
            required [Key (asc ''side'')] (o_side d),
            gt_0 [Key (asc ''quantity'')] (required [Key (asc ''quantity'')] (o_quantity d)),
            gt_0 [Key (asc ''price'')] (required [Key (asc ''price'')] (o_price d)),
            with_default [Key (asc ''status'')] (asc ''submitted'') (o_status d)) of
        (Inr u, Inr s, Inr sd, Inr q, Inr p, Inr st) \<Rightarrow>
          Inr \<lparr>Order.user_id = u, Order.symbol = s, side = sd, Order.quantity = q, price = p,
               status = st\<rparr>
      | (u, s, sd, q, p, st) \<Rightarrow>
          Inl (ValidationError (errors_of u @ errors_of s @ errors_of sd @ errors_of q @
                 errors_of p @ errors_of st)))"

text \<open>
  \<open>class AnalysisRequest\<close>: \<open>symbols: List[str]\<close>, \<open>language: str = Field("en")\<close>. An item
  of \<open>symbols\<close> only has to be a string.
\<close>

fun validate_symbols :: "nat \<Rightarrow> pystr field list \<Rightarrow> error_details + pystr list" where
  "validate_symbols i [] = Inr []"
| "validate_symbols i (f # fs) =
     (case (required [Key (asc ''symbols''), Index i] f, validate_symbols (Suc i) fs) of
        (Inr s, Inr ss) \<Rightarrow> Inr (s # ss)
      | (s, ss) \<Rightarrow> Inl (errors_of s @ errors_of ss))"

definition validate_AnalysisRequest :: "AnalysisRequest_doc \<Rightarrow> ValidationError + AnalysisRequest" where
  "validate_AnalysisRequest d =
     (case ((case a_symbols d of Missing \<Rightarrow> Inl [([Key (asc ''symbols'')], ErrMissing)]
             | Invalid \<Rightarrow> Inl [([Key (asc ''symbols'')], ErrType)]
             | Given fs \<Rightarrow> validate_symbols 0 fs),
            with_default [Key (asc ''language'')] (asc ''en'') (a_language d)) of
        (Inr ss, Inr l) \<Rightarrow> Inr \<lparr>symbols = ss, language = l\<rparr>
      | (ss, l) \<Rightarrow> Inl (ValidationError (errors_of ss @ errors_of l)))"

section \<open>The document store\<close>

text \<open>\<open>model_dump()\<close> of the entities that are stored.\<close>

definition Holding_model_dump :: "Holding \<Rightarrow> document" where
  "Holding_model_dump h =
     [(asc ''symbol'', VStr (Holding.symbol h)),
      (asc ''quantity'', VFloat (Holding.quantity h)),
      (asc ''avg_price'', VFloat (avg_price h))]"

definition Portfolio_model_dump :: "Portfolio \<Rightarrow> document" where
  "Portfolio_model_dump p =
     [(asc ''user_id'', VStr (Portfolio.user_id p)),
      (asc ''holdings'', VList (map (\<lambda>h. VDict (Holding_model_dump h)) (holdings p))),
      (asc ''cash_sar'', VFloat (cash_sar p))]"

definition Order_model_dump :: "Order \<Rightarrow> document" where
  "Order_model_dump ord =
     [(asc ''user_id'', VStr (Order.user_id ord)),
      (asc ''symbol'', VStr (Order.symbol ord)),
      (asc ''side'', VStr (side ord)),
      (asc ''quantity'', VFloat (Order.quantity ord)),
      (asc ''price'', VFloat (price ord)),
      (asc ''status'', VStr (status ord))]"

definition Strategy_model_dump :: "Strategy \<Rightarrow> document" where
  "Strategy_model_dump s =
     [(asc ''user_id'', VStr (user_id s)),
      (asc ''name'', VStr (name s)),
      (asc ''params'', VDict (params s)),
      (asc ''active'', VBool (active s))]"

text \<open>
  Modelled from the spec: \<open>database.py\<close> (the handle \<open>db\<close>, \<open>create_document\<close> and
  \<open>get_documents\<close>) is not among the sources. The specification gives the store two
  operations: \<open>insert(collection_name, document) -> identifier\<close>, where the store assigns
  the identifier and returns it as an opaque string, and
  \<open>query(collection_name, filter, limit) -> ordered sequence of document\<close>, where the
  filter is unused (always empty) and the limit bounds the number of results. A store is
  the ordered content of each collection and the next identifier; a stored document
  carries its identifier under \<open>_id\<close>, which \<open>main.py\<close> expects there. \<open>str_of\<close> is Python's
  \<open>str\<close> on a stored value.
\<close>

record store =
  collections :: "pystr \<Rightarrow> document list"
  next_id :: nat

definition create_document ::
  "(val \<Rightarrow> pystr) \<Rightarrow> store \<Rightarrow> pystr \<Rightarrow> document \<Rightarrow> pystr \<times> store" where
  "create_document str_of st collection_name data =
     (let oid = VObjectId (next_id st)
      in (str_of oid,
          st\<lparr>collections := (collections st)
                (collection_name := collections st collection_name @ [(asc ''_id'', oid) # data]),
             next_id := Suc (next_id st)\<rparr>))"

definition get_documents :: "store \<Rightarrow> pystr \<Rightarrow> document \<Rightarrow> int \<Rightarrow> document list" where
  "get_documents st collection_name filter_dict limit =
     take (nat limit) (collections st collection_name)"

section \<open>main.py: the handlers that use the store\<close>

datatype HTTPException = HTTPException (status_code: int) (detail: pystr)

text \<open>
  The result of a handler: the exception it raises, or its return value together with
  the store after the call. The global \<open>db\<close> is \<open>None\<close> or the store.
\<close>

definition not_configured :: HTTPException where
  "not_configured = HTTPException 500 (asc ''Database not configured'')"

text \<open>A Python dict as an association list: \<open>d[k] = v\<close>.\<close>

fun dict_set :: "pystr \<Rightarrow> val \<Rightarrow> document \<Rightarrow> document" where
  "dict_set k v [] = [(k, v)]"
| "dict_set k v (kv # d) = (if fst kv = k then (k, v) # d else kv # dict_set k v d)"

text \<open>\<open>if "_id" in d: d["_id"] = str(d["_id"])\<close>\<close>

definition stringify_id :: "(val \<Rightarrow> pystr) \<Rightarrow> document \<Rightarrow> document" where
  "stringify_id str_of d =
     (case map_of d (asc ''_id'') of None \<Rightarrow> d
      | Some v \<Rightarrow> dict_set (asc ''_id'') (VStr (str_of v)) d)"

definition create_portfolio ::
  "(val \<Rightarrow> pystr) \<Rightarrow> store option \<Rightarrow> Portfolio \<Rightarrow> HTTPException + document \<times> store" where
  "create_portfolio str_of db payload =
     (case db of None \<Rightarrow> Inl not_configured
      | Some st \<Rightarrow>
          (case create_document str_of st (asc ''portfolio'') (Portfolio_model_dump payload) of
             (inserted_id, st') \<Rightarrow> Inr ([(asc ''id'', VStr inserted_id)], st')))"

definition list_portfolios ::
  "(val \<Rightarrow> pystr) \<Rightarrow> store option \<Rightarrow> int \<Rightarrow> HTTPException + document list" where
  "list_portfolios str_of db limit =
     (case db of None \<Rightarrow> Inl not_configured
      | Some st \<Rightarrow> Inr (map (stringify_id str_of) (get_documents st (asc ''portfolio'') [] limit)))"

definition place_order ::
  "(val \<Rightarrow> pystr) \<Rightarrow> store option \<Rightarrow> Order \<Rightarrow> HTTPException + document \<times> store" where
  "place_order str_of db ord =
     (case db of None \<Rightarrow> Inl not_configured
      | Some st \<Rightarrow>
          (case create_document str_of st (asc ''order'') (Order_model_dump ord) of
             (order_id, st') \<Rightarrow>
               Inr ([(asc ''id'', VStr order_id), (asc ''status'', VStr (asc ''received''))], st')))"

definition list_orders ::
  "(val \<Rightarrow> pystr) \<Rightarrow> store option \<Rightarrow> int \<Rightarrow> HTTPException + document list" where
  "list_orders str_of db limit =
     (case db of None \<Rightarrow> Inl not_configured
      | Some st \<Rightarrow> Inr (map (stringify_id str_of) (get_documents st (asc ''order'') [] limit)))"

definition create_strategy ::
  "(val \<Rightarrow> pystr) \<Rightarrow> store option \<Rightarrow> Strategy \<Rightarrow> HTTPException + document \<times> store" where
  "create_strategy str_of db strategy =
     (case db of None \<Rightarrow> Inl not_configured
      | Some st \<Rightarrow>
          (case create_document str_of st (asc ''strategy'') (Strategy_model_dump strategy) of
             (sid, st') \<Rightarrow> Inr ([(asc ''id'', VStr sid)], st')))"

definition list_strategies ::
  "(val \<Rightarrow> pystr) \<Rightarrow> store option \<Rightarrow> int \<Rightarrow> HTTPException + document list" where
  "list_strategies str_of db limit =
     (case db of None \<Rightarrow> Inl not_configured
      | Some st \<Rightarrow> Inr (map (stringify_id str_of) (get_documents st (asc ''strategy'') [] limit)))"

text \<open>
  The failure classes of the specification, by HTTP status: a service-unavailable-class
  failure is status 503, a server-error-class failure is a status from 500 to 599.
\<close>

definition service_unavailable_class :: "HTTPException \<Rightarrow> bool" where
  "service_unavailable_class e = (status_code e = 503)"

definition server_error_class :: "HTTPException \<Rightarrow> bool" where
  "server_error_class e = (500 \<le> status_code e \<and> status_code e < 600)"

text \<open>
  A sample of Python's \<open>str\<close> for concrete inputs: it prints an identifier as its decimal
  number and a string as itself.
\<close>

definition sample_str :: "val \<Rightarrow> pystr" where
  "sample_str v = (case v of VObjectId n \<Rightarrow> digits10 n | VStr s \<Rightarrow> s | _ \<Rightarrow> [])"

section \<open>Properties stated in the proofs\<close>

text \<open>
  What the table of the hundred possible products \<open>n * 0.9\<close> (\<open>0 \<le> n < 100\<close>) is
  checked for: the product is not negative, at most the float nearest to \<open>99 * 0.9\<close>,
  within \<open>2^-46\<close> of the exact product, and never exactly 30 or 70.
\<close>

definition rsi_ok :: "int \<Rightarrow> bool" where
  "rsi_ok n = (fval (float_mul (float_of_int n) float_0_9) \<ge> 0 \<and>
         fval (float_mul (float_of_int n) float_0_9) \<le> 6269855106229863 / 70368744177664 \<and>
         \<bar>fval (float_mul (float_of_int n) float_0_9) - of_int n * 9 / 10\<bar> \<le> 1 / 2 ^ 46 \<and>
         fval (float_mul (float_of_int n) float_0_9) \<noteq> 30 \<and>
         fval (float_mul (float_of_int n) float_0_9) \<noteq> 70)"

text \<open>A stored document holds the six fields of an order.\<close>

definition has_order_fields :: "Order \<Rightarrow> document \<Rightarrow> bool" where
  "has_order_fields ord doc =
     (map_of doc (asc ''user_id'') = Some (VStr (Order.user_id ord)) \<and>
      map_of doc (asc ''symbol'') = Some (VStr (Order.symbol ord)) \<and>
      map_of doc (asc ''side'') = Some (VStr (side ord)) \<and>
      map_of doc (asc ''quantity'') = Some (VFloat (Order.quantity ord)) \<and>
      map_of doc (asc ''price'') = Some (VFloat (price ord)) \<and>
      map_of doc (asc ''status'') = Some (VStr (status ord)))"

section \<open>Evaluation rules\<close>

lemma bitlen_numeral_step: "bitlen (numeral k) = bitlen (numeral k div 2) + 1"
  by (subst compute_bitlen) simp

lemma bitlen_one: "bitlen 1 = 1"
  by (subst compute_bitlen) simp

lemmas float_eval = fval_def float_mul_def float_of_int_def float_0_9_def round53_def
  rdiv_half_even_def bitlen_numeral_step bitlen_one Let_def

lemma signal_words_distinct:
  "asc ''buy'' \<noteq> asc ''sell''" "asc ''buy'' \<noteq> asc ''hold''" "asc ''sell'' \<noteq> asc ''hold''"
  "asc ''sell'' \<noteq> asc ''buy''" "asc ''hold'' \<noteq> asc ''buy''" "asc ''hold'' \<noteq> asc ''sell''"
  by (simp_all add: asc_def)

section \<open>The loop of analyze\<close>

lemma analyze_loop_map:
  "analyze_loop lang symbs insights = insights @ map (analyze_symbol lang) symbs"
  by (induction symbs arbitrary: insights) simp_all

lemma analyze_map: "analyze request = map (analyze_symbol (language request)) (symbols request)"
  by (simp add: analyze_def analyze_loop_map)

lemma analyze_symbol_fields:
  "symbol (analyze_symbol lang s) = s"
  "rsi (analyze_symbol lang s) = rsi_of s"
  "sma_14 (analyze_symbol lang s) = float_of_int (sma_14_of s)"
  "signal (analyze_symbol lang s) = signal_of (rsi_of s)"
  "summary (analyze_symbol lang s) = summary_of lang s (rsi_of s) (sma_14_of s) (signal_of (rsi_of s))"
  by (simp_all add: analyze_symbol_def Let_def)

section \<open>Floats\<close>

lemma round53_small: "\<bar>m\<bar> < 2 ^ 53 \<Longrightarrow> round53 m e = Float m e"
proof -
  assume "\<bar>m\<bar> < 2 ^ 53"
  then have "bitlen \<bar>m\<bar> \<le> 53"
    by (simp add: bitlen_le_iff_power)
  then show ?thesis
    by (simp add: round53_def)
qed

lemma fval_float_of_int_exact: "\<bar>n\<bar> < 2 ^ 53 \<Longrightarrow> fval (float_of_int n) = of_int n"
  by (simp add: float_of_int_def round53_small fval_def)

lemma fval_float_of_int_integer: "fval (float_of_int n) \<in> \<int>"
  by (simp add: float_of_int_def round53_def fval_def Let_def)

lemma rsi_table_all: "\<forall>n\<in>set [2..99]. rsi_ok n"
  apply (simp del: set_upto)
  apply (intro conjI)
  apply (simp_all add: rsi_ok_def float_eval)
  done

lemma rsi_table:
  assumes "0 \<le> n" "n < 100"
  shows "rsi_ok n"
proof -
  have "n = 0 \<or> n = 1 \<or> (2 \<le> n \<and> n \<le> 99)" using assms by arith
  then have "n = 0 \<or> n = 1 \<or> n \<in> set [2..99]" by (simp only: set_upto atLeastAtMost_iff)
  moreover have "rsi_ok 0" by (simp add: rsi_ok_def float_eval)
  moreover have "rsi_ok 1" by (simp add: rsi_ok_def float_eval)
  ultimately show ?thesis using rsi_table_all by blast
qed

lemma rsi_of_ok: "rsi_ok (ord_sum s mod 100)"
  by (rule rsi_table) simp_all

section \<open>The analysis routine\<close>

text \<open>
  Claim C1. The signal of an insight is computed from its rsi: it is "buy" exactly when
  the rsi is below 30, "sell" exactly when it is above 70 and "hold" otherwise; the
  boundary values 30 and 70 themselves give "hold".
\<close>
theorem signal_thresholds:
  "signal (analyze_symbol lang s) = signal_of (rsi (analyze_symbol lang s)) \<and>
   (signal_of r = asc ''buy'' \<longleftrightarrow> fval r < 30) \<and>
   (signal_of r = asc ''sell'' \<longleftrightarrow> 70 < fval r) \<and>
   (signal_of r = asc ''hold'' \<longleftrightarrow> 30 \<le> fval r \<and> fval r \<le> 70) \<and>
   signal_of (float_of_int 30) = asc ''hold'' \<and>
   signal_of (float_of_int 70) = asc ''hold''"
  by (auto simp add: analyze_symbol_fields signal_of_def signal_words_distinct float_eval)

text \<open>
  Claim C2, as stated, fails on the upper bound of the interval: for the symbol "c" (code
  point 99) the rsi is the float nearest to \<open>99 * 0.9\<close>, which is not below \<open>89.1\<close>.
\<close>
theorem rsi_range_counterexample:
  "fval (rsi_of (asc ''c'')) = 6269855106229863 / 70368744177664 \<and>
   \<not> (fval (rsi_of (asc ''c'')) < 891 / 10)"
  by (simp add: rsi_of_def ord_sum_def asc_def float_eval)

text \<open>
  Claim C2, amended. The rsi of a symbol is the float product of (the sum of its code
  points modulo 100) and the float \<open>0.9\<close>; it differs from the exact product by at most
  \<open>2^-46\<close>, lies in the closed interval from 0 to the float nearest to \<open>89.1\<close> from above
  (\<open>89.10000000000001\<close>), and so is at least 0 and below 90. Being a function of the
  symbol alone, it is deterministic.
\<close>
theorem rsi_value_and_range:
  "rsi (analyze_symbol lang s) = rsi_of s \<and>
   rsi_of s = float_mul (float_of_int (sum_list (map int s) mod 100)) float_0_9 \<and>
   \<bar>fval (rsi_of s) - of_int (sum_list (map int s) mod 100) * 9 / 10\<bar> \<le> 1 / 2 ^ 46 \<and>
   0 \<le> fval (rsi_of s) \<and>
   fval (rsi_of s) \<le> 6269855106229863 / 70368744177664 \<and>
   fval (rsi_of s) < 90"
proof -
  have ok: "rsi_ok (ord_sum s mod 100)" by (rule rsi_of_ok)
  have "6269855106229863 / 70368744177664 < (90 :: rat)" by simp
  with ok show ?thesis
    unfolding rsi_ok_def by (simp add: analyze_symbol_fields rsi_of_def ord_sum_def)
qed

text \<open>
  Claim C3. The sma_14 of a symbol is \<open>50 + 2 * length\<close>; the insight stores it as a
  float, which is always integer-valued and equals \<open>50 + 2 * length\<close> exactly whenever
  that number is below \<open>2^53\<close> (which holds for every string that fits in memory).
\<close>
theorem sma_14_value:
  "sma_14_of s = 50 + 2 * int (length s) \<and>
   sma_14 (analyze_symbol lang s) = float_of_int (50 + 2 * int (length s)) \<and>
   fval (sma_14 (analyze_symbol lang s)) \<in> \<int> \<and>
   (50 + 2 * int (length s) < 2 ^ 53 \<longrightarrow>
      fval (sma_14 (analyze_symbol lang s)) = of_int (50 + 2 * int (length s)))"
proof -
  have e: "sma_14_of s = 50 + 2 * int (length s)" by (simp add: sma_14_of_def)
  have "50 + 2 * int (length s) < 2 ^ 53 \<Longrightarrow> \<bar>50 + 2 * int (length s)\<bar> < 2 ^ 53" by simp
  then show ?thesis
    by (simp only: analyze_symbol_fields e fval_float_of_int_integer) (simp add: fval_float_of_int_exact)
qed

text \<open>Witness for C3: the symbol "AAPL" has sma_14 58.\<close>
theorem sma_14_value_witness:
  "50 + 2 * int (length (asc ''AAPL'')) < 2 ^ 53 \<and>
   fval (sma_14 (analyze_symbol (asc ''en'') (asc ''AAPL''))) = 58"
  using sma_14_value [of "asc ''AAPL''" "asc ''en''"] by (simp add: asc_def float_eval)

text \<open>
  Claim C4. The analysis returns exactly one insight per input symbol, in the order of the
  input; equal symbols at two positions give equal insights (nothing is deduplicated);
  and an empty list of symbols gives an empty result, whatever the language.
\<close>
theorem analyze_one_per_symbol_in_order:
  "analyze request = map (analyze_symbol (language request)) (symbols request) \<and>
   length (analyze request) = length (symbols request) \<and>
   map symbol (analyze request) = symbols request \<and>
   analyze \<lparr>symbols = [], language = lang\<rparr> = [] \<and>
   (\<forall>i j. i < length (symbols request) \<and> j < length (symbols request) \<and>
           symbols request ! i = symbols request ! j \<longrightarrow>
           analyze request ! i = analyze request ! j)"
  by (simp add: analyze_map analyze_symbol_fields comp_def)

text \<open>Witness for C4: the symbols "A", "B", "A".\<close>
theorem analyze_one_per_symbol_in_order_witness:
  "analyze \<lparr>symbols = [asc ''A'', asc ''B'', asc ''A''], language = asc ''en''\<rparr> ! 0 =
   analyze \<lparr>symbols = [asc ''A'', asc ''B'', asc ''A''], language = asc ''en''\<rparr> ! 2 \<and>
   map symbol (analyze \<lparr>symbols = [asc ''A'', asc ''B'', asc ''A''], language = asc ''en''\<rparr>) =
     [asc ''A'', asc ''B'', asc ''A'']"
  using analyze_one_per_symbol_in_order
    [of "\<lparr>symbols = [asc ''A'', asc ''B'', asc ''A''], language = asc ''en''\<rparr>"]
  by (simp add: analyze_symbol_fields)

text \<open>
  Claim C5. When the language is "ar" the summary is the Arabic template, with the signal
  mapped to its Arabic word; for every other language it is the English template.
\<close>
theorem summary_language:
  "(lang = asc ''ar'' \<longrightarrow>
      (\<exists>w. arabic_word (signal (analyze_symbol lang s)) = Some w \<and>
           summary (analyze_symbol lang s) =
             arabic_template s (rsi (analyze_symbol lang s)) (sma_14 (analyze_symbol lang s)) w)) \<and>
   (lang \<noteq> asc ''ar'' \<longrightarrow>
      summary (analyze_symbol lang s) =
        english_template s (rsi (analyze_symbol lang s)) (sma_14 (analyze_symbol lang s))
          (signal (analyze_symbol lang s)))"
  by (simp add: analyze_symbol_fields summary_of_def signal_of_def arabic_word_def
      arabic_template_def english_template_def signal_words_distinct)
    (simp add: asc_def)

lemma summary_ar_AAPL:
  "summary (analyze_symbol (asc ''ar'') (asc ''AAPL'')) =
     [1578, 1581, 1604, 1610, 1604, 32] @ asc ''AAPL'' @
     [58, 32, 1605, 1572, 1588, 1585, 32, 1575, 1604, 1602, 1608, 1577, 32,
      1575, 1604, 1606, 1587, 1576, 1610, 1577, 32] @ asc ''77.4'' @
     [1548, 32, 1605, 1578, 1608, 1587, 1591, 32, 1605, 1578, 1581, 1585, 1603, 32,
      49, 52, 32, 1610, 1608, 1605, 32] @ asc ''58.0'' @
     [46, 32, 1575, 1604, 1578, 1608, 1589, 1610, 1577, 58, 32] @ [1576, 1610, 1593] @ [46]"
  by code_simp

lemma summary_fr_AAPL:
  "summary (analyze_symbol (asc ''fr'') (asc ''AAPL'')) =
     asc ''AAPL analysis: RSI 77.4, 14-day SMA 58.0. Recommendation: sell.''"
  by code_simp

lemma lang_fr_not_ar: "asc ''fr'' \<noteq> asc ''ar''"
  by (simp add: asc_def)

text \<open>
  Witness for C5: the symbol "AAPL" in Arabic and in a language that is not "ar" (French
  falls back to English).
\<close>

theorem summary_language_witness:
  "asc ''fr'' \<noteq> asc ''ar'' \<and>
   (\<exists>w. arabic_word (signal (analyze_symbol (asc ''ar'') (asc ''AAPL''))) = Some w \<and>
        summary (analyze_symbol (asc ''ar'') (asc ''AAPL'')) =
          arabic_template (asc ''AAPL'') (rsi (analyze_symbol (asc ''ar'') (asc ''AAPL'')))
            (sma_14 (analyze_symbol (asc ''ar'') (asc ''AAPL''))) w) \<and>
   summary (analyze_symbol (asc ''fr'') (asc ''AAPL'')) =
     english_template (asc ''AAPL'') (rsi (analyze_symbol (asc ''fr'') (asc ''AAPL'')))
       (sma_14 (analyze_symbol (asc ''fr'') (asc ''AAPL'')))
       (signal (analyze_symbol (asc ''fr'') (asc ''AAPL''))) \<and>
   summary (analyze_symbol (asc ''fr'') (asc ''AAPL'')) =
     asc ''AAPL analysis: RSI 77.4, 14-day SMA 58.0. Recommendation: sell.''"
  using summary_language [of "asc ''ar''" "asc ''AAPL''"]
    summary_language [of "asc ''fr''" "asc ''AAPL''"] lang_fr_not_ar summary_fr_AAPL
  by blast

lemma empty_symbol_eval:
  "analyze \<lparr>symbols = [[]], language = asc ''en''\<rparr> =
     [\<lparr>symbol = [], rsi = Float 0 (- 53), sma_14 = Float 50 0, signal = asc ''buy'',
       summary = asc '' analysis: RSI 0.0, 14-day SMA 50.0. Recommendation: buy.''\<rparr>]"
  by code_simp

lemma empty_symbol_request_valid:
  "validate_AnalysisRequest \<lparr>a_symbols = Given [Given []], a_language = Missing\<rparr> =
     Inr \<lparr>symbols = [[]], language = asc ''en''\<rparr>"
  by (simp add: validate_AnalysisRequest_def required_def with_default_def)

text \<open>
  Claim C10. A request whose only symbol is the empty string is valid, and the empty
  symbol is analysed like any other: rsi 0.0, sma_14 50.0, signal "buy" and a summary in
  the usual format.
\<close>

theorem empty_symbol_insight:
  "validate_AnalysisRequest \<lparr>a_symbols = Given [Given []], a_language = Missing\<rparr> =
     Inr \<lparr>symbols = [[]], language = asc ''en''\<rparr> \<and>
   analyze \<lparr>symbols = [[]], language = asc ''en''\<rparr> =
     [\<lparr>symbol = [], rsi = Float 0 (- 53), sma_14 = Float 50 0, signal = asc ''buy'',
       summary = asc '' analysis: RSI 0.0, 14-day SMA 50.0. Recommendation: buy.''\<rparr>] \<and>
   fval (Float 0 (- 53)) = 0 \<and> fval (Float 50 0) = 50"
  by (simp add: empty_symbol_request_valid empty_symbol_eval fval_def)

section \<open>Handlers without a store\<close>

text \<open>
  Claim C6, as stated, fails on the class of the failure: without a store a handler raises
  \<open>HTTPException(status_code=500, detail="Database not configured")\<close>, and status 500 is
  not the service-unavailable status 503.
\<close>

theorem store_not_configured_counterexample:
  "create_portfolio sample_str None
     \<lparr>Portfolio.user_id = asc ''u1'', holdings = [], cash_sar = Float 0 0\<rparr> =
     Inl (HTTPException 500 (asc ''Database not configured'')) \<and>
   \<not> service_unavailable_class (HTTPException 500 (asc ''Database not configured''))"
  by (simp add: create_portfolio_def not_configured_def service_unavailable_class_def)

text \<open>
  Claim C6, amended. When the store is not configured (\<open>db is None\<close>), each of the six
  handlers that use the store raises at once an HTTP exception with status 500 (a
  server-error-class failure) and the detail "Database not configured"; the analysis
  handler does not read \<open>db\<close> and still returns one insight per symbol.
\<close>

theorem store_not_configured:
  "create_portfolio str_of None payload = Inl (HTTPException 500 (asc ''Database not configured'')) \<and>
   list_portfolios str_of None limit = Inl (HTTPException 500 (asc ''Database not configured'')) \<and>
   place_order str_of None ord = Inl (HTTPException 500 (asc ''Database not configured'')) \<and>
   list_orders str_of None limit = Inl (HTTPException 500 (asc ''Database not configured'')) \<and>
   create_strategy str_of None strategy = Inl (HTTPException 500 (asc ''Database not configured'')) \<and>
   list_strategies str_of None limit = Inl (HTTPException 500 (asc ''Database not configured'')) \<and>
   server_error_class (HTTPException 500 (asc ''Database not configured'')) \<and>
   length (analyze request) = length (symbols request)"
  by (simp add: create_portfolio_def list_portfolios_def place_order_def list_orders_def
      create_strategy_def list_strategies_def not_configured_def server_error_class_def
      analyze_def analyze_loop_map)

section \<open>Validation\<close>

lemma validate_Holding_accepts_iff:
  "(\<exists>h. validate_Holding d = Inr h) \<longleftrightarrow>
   (\<exists>s q a. h_symbol d = Given s \<and> h_quantity d = Given q \<and> h_avg_price d = Given a \<and>
            0 \<le> fval q \<and> 0 \<le> fval a)"
  by (cases "h_symbol d"; cases "h_quantity d"; cases "h_avg_price d")
    (auto simp add: validate_Holding_def validate_Holding_at_def required_def ge_0_def
      errors_of_def split: sum.splits)

lemma validate_Order_accepts_iff:
  "(\<exists>ord. validate_Order d = Inr ord) \<longleftrightarrow>
   (\<exists>u s sd q p. o_user_id d = Given u \<and> o_symbol d = Given s \<and> o_side d = Given sd \<and>
      o_quantity d = Given q \<and> o_price d = Given p \<and> 0 < fval q \<and> 0 < fval p \<and>
      o_status d \<noteq> Invalid)"
  by (cases "o_user_id d"; cases "o_symbol d"; cases "o_side d"; cases "o_quantity d";
      cases "o_price d"; cases "o_status d")
    (auto simp add: validate_Order_def required_def with_default_def gt_0_def
      errors_of_def split: sum.splits)

lemma negative_quantity_rejected:
  assumes "h_quantity d = Given q" "fval q < 0"
  shows "\<exists>e. validate_Holding d = Inl (ValidationError e) \<and>
             ([Key (asc ''quantity'')], ErrGreaterThanEqual) \<in> set e"
  using assms
  by (cases "h_symbol d"; cases "h_avg_price d")
    (auto simp add: validate_Holding_def validate_Holding_at_def required_def ge_0_def
      errors_of_def split: sum.splits)

lemma zero_price_rejected:
  assumes "o_price d = Given p" "fval p = 0"
  shows "\<exists>e. validate_Order d = Inl (ValidationError e) \<and>
             ([Key (asc ''price'')], ErrGreaterThan) \<in> set e"
  using assms
  by (cases "o_user_id d"; cases "o_symbol d"; cases "o_side d"; cases "o_quantity d";
      cases "o_status d")
    (auto simp add: validate_Order_def required_def with_default_def gt_0_def
      errors_of_def split: sum.splits)

text \<open>
  Claim C7. Validation rejects, with a \<open>ValidationError\<close> that names the field, every
  Holding document whose quantity is negative and every Order document whose price is 0.
  A Holding document is accepted exactly when its three fields are present and quantity
  and avg_price are at least 0; an Order document exactly when its required fields are
  present and quantity and price are above 0.
\<close>

theorem validation_rejects:
  "(h_quantity hdoc = Given q \<and> fval q < 0 \<longrightarrow>
      (\<exists>e. validate_Holding hdoc = Inl (ValidationError e) \<and>
           ([Key (asc ''quantity'')], ErrGreaterThanEqual) \<in> set e)) \<and>
   (o_price odoc = Given p \<and> fval p = 0 \<longrightarrow>
      (\<exists>e. validate_Order odoc = Inl (ValidationError e) \<and>
           ([Key (asc ''price'')], ErrGreaterThan) \<in> set e)) \<and>
   ((\<exists>h. validate_Holding hdoc = Inr h) \<longleftrightarrow>
      (\<exists>s q a. h_symbol hdoc = Given s \<and> h_quantity hdoc = Given q \<and> h_avg_price hdoc = Given a \<and>
               0 \<le> fval q \<and> 0 \<le> fval a)) \<and>
   ((\<exists>ord. validate_Order odoc = Inr ord) \<longleftrightarrow>
      (\<exists>u s sd q p. o_user_id odoc = Given u \<and> o_symbol odoc = Given s \<and> o_side odoc = Given sd \<and>
         o_quantity odoc = Given q \<and> o_price odoc = Given p \<and> 0 < fval q \<and> 0 < fval p \<and>
         o_status odoc \<noteq> Invalid))"
  using negative_quantity_rejected [of hdoc q] zero_price_rejected [of odoc p]
    validate_Holding_accepts_iff [of hdoc] validate_Order_accepts_iff [of odoc]
  by blast

text \<open>
  Witness for C7: a Holding with quantity -1 and an Order with price 0 (quantity 10).
\<close>

theorem validation_rejects_witness:
  "fval (Float (- 1) 0) < 0 \<and> fval (Float 0 0) = 0 \<and>
   (\<exists>e. validate_Holding
          \<lparr>h_symbol = Given (asc ''2222''), h_quantity = Given (Float (- 1) 0),
            h_avg_price = Given (Float 30 0)\<rparr> = Inl (ValidationError e) \<and>
        ([Key (asc ''quantity'')], ErrGreaterThanEqual) \<in> set e) \<and>
   (\<exists>e. validate_Order
          \<lparr>o_user_id = Given (asc ''u1''), o_symbol = Given (asc ''2222''),
            o_side = Given (asc ''buy''), o_quantity = Given (Float 10 0),
            o_price = Given (Float 0 0), o_status = Missing\<rparr> = Inl (ValidationError e) \<and>
        ([Key (asc ''price'')], ErrGreaterThan) \<in> set e)"
  using validation_rejects
    [of "\<lparr>h_symbol = Given (asc ''2222''), h_quantity = Given (Float (- 1) 0),
           h_avg_price = Given (Float 30 0)\<rparr>" "Float (- 1) 0"
        "\<lparr>o_user_id = Given (asc ''u1''), o_symbol = Given (asc ''2222''),
           o_side = Given (asc ''buy''), o_quantity = Given (Float 10 0),
           o_price = Given (Float 0 0), o_status = Missing\<rparr>" "Float 0 0"]
  by (simp add: fval_def)

text \<open>
  Claim C8. A Portfolio document with an empty list of holdings and \<open>cash_sar\<close> 0 is
  accepted and normalised, not rejected; the same entity results when holdings and
  cash_sar are left out, since the empty list and 0.0 are their defaults.
\<close>

theorem portfolio_boundary_accepted:
  "validate_Portfolio
     \<lparr>p_user_id = Given u, p_holdings = Given [], p_cash_sar = Given (Float 0 0)\<rparr> =
     Inr \<lparr>Portfolio.user_id = u, holdings = [], cash_sar = Float 0 0\<rparr> \<and>
   validate_Portfolio \<lparr>p_user_id = Given u, p_holdings = Missing, p_cash_sar = Missing\<rparr> =
     Inr \<lparr>Portfolio.user_id = u, holdings = [], cash_sar = Float 0 0\<rparr> \<and>
   fval (Float 0 0) = 0"
  by (simp add: validate_Portfolio_def required_def ge_0_def fval_def float_of_int_def
      round53_def)

section \<open>Round trip of an order through the store\<close>

lemma stored_order_has_fields:
  "has_order_fields ord (stringify_id str_of ((asc ''_id'', oid) # Order_model_dump ord))"
  by (simp add: has_order_fields_def stringify_id_def Order_model_dump_def asc_def)

lemma order_round_trip_limit:
  assumes "length (collections st (asc ''order'')) < nat limit"
  shows "\<exists>resp st' docs.
           place_order str_of (Some st) ord = Inr (resp, st') \<and>
           list_orders str_of (Some st') limit = Inr docs \<and>
           length (collections st (asc ''order'')) < length docs \<and>
           has_order_fields ord (docs ! length (collections st (asc ''order'')))"
  using assms
  by (simp add: place_order_def list_orders_def create_document_def get_documents_def
      Let_def nth_append stored_order_has_fields)

lemma validate_Order_normalises:
  assumes "validate_Order d = Inr ord"
  shows "o_user_id d = Given (Order.user_id ord) \<and> o_symbol d = Given (Order.symbol ord) \<and>
         o_side d = Given (side ord) \<and> o_quantity d = Given (Order.quantity ord) \<and>
         o_price d = Given (price ord) \<and>
         status ord = (case o_status d of Given s \<Rightarrow> s | _ \<Rightarrow> asc ''submitted'')"
  using assms
  by (cases "o_user_id d"; cases "o_symbol d"; cases "o_side d"; cases "o_quantity d";
      cases "o_price d"; cases "o_status d")
    (auto simp add: validate_Order_def required_def with_default_def gt_0_def
      errors_of_def split: sum.splits if_splits)

text \<open>
  Claim C9. A valid Order document is normalised to an order that keeps the given
  user_id, symbol, side, quantity and price and whose status is the given one or
  "submitted" when it is left out; once \<open>place_order\<close> has inserted it, some query of
  the order collection through \<open>list_orders\<close> returns a document with these six fields
  unchanged.
\<close>

theorem order_round_trip:
  "validate_Order d = Inr ord \<longrightarrow>
     o_user_id d = Given (Order.user_id ord) \<and> o_symbol d = Given (Order.symbol ord) \<and>
     o_side d = Given (side ord) \<and> o_quantity d = Given (Order.quantity ord) \<and>
     o_price d = Given (price ord) \<and>
     status ord = (case o_status d of Given s \<Rightarrow> s | _ \<Rightarrow> asc ''submitted'') \<and>
     (\<exists>resp st' limit docs.
        place_order str_of (Some st) ord = Inr (resp, st') \<and>
        list_orders str_of (Some st') limit = Inr docs \<and>
        (\<exists>doc \<in> set docs. has_order_fields ord doc))"
proof
  assume v: "validate_Order d = Inr ord"
  let ?n = "length (collections st (asc ''order''))"
  have "?n < nat (int ?n + 1)" by simp
  from order_round_trip_limit [OF this, of str_of ord]
  obtain resp st' docs where
    r: "place_order str_of (Some st) ord = Inr (resp, st')"
       "list_orders str_of (Some st') (int ?n + 1) = Inr docs"
       "?n < length docs" "has_order_fields ord (docs ! ?n)"
    by blast
  from r(3) have "docs ! ?n \<in> set docs" by simp
  with r have "\<exists>resp st' limit docs.
        place_order str_of (Some st) ord = Inr (resp, st') \<and>
        list_orders str_of (Some st') limit = Inr docs \<and>
        (\<exists>doc \<in> set docs. has_order_fields ord doc)"
    by blast
  with validate_Order_normalises [OF v] show
    "o_user_id d = Given (Order.user_id ord) \<and> o_symbol d = Given (Order.symbol ord) \<and>
     o_side d = Given (side ord) \<and> o_quantity d = Given (Order.quantity ord) \<and>
     o_price d = Given (price ord) \<and>
     status ord = (case o_status d of Given s \<Rightarrow> s | _ \<Rightarrow> asc ''submitted'') \<and>
     (\<exists>resp st' limit docs.
        place_order str_of (Some st) ord = Inr (resp, st') \<and>
        list_orders str_of (Some st') limit = Inr docs \<and>
        (\<exists>doc \<in> set docs. has_order_fields ord doc))"
    by blast
qed

lemma sample_order_valid:
  "validate_Order
     \<lparr>o_user_id = Given (asc ''u1''), o_symbol = Given (asc ''2222''),
       o_side = Given (asc ''buy''), o_quantity = Given (Float 10 0),
       o_price = Given (Float 30 0), o_status = Missing\<rparr> =
   Inr \<lparr>Order.user_id = asc ''u1'', Order.symbol = asc ''2222'', side = asc ''buy'',
        Order.quantity = Float 10 0, price = Float 30 0, status = asc ''submitted''\<rparr>"
  by (simp add: validate_Order_def required_def with_default_def gt_0_def fval_def)

text \<open>
  Witness for C9: an order for 10 shares of "2222" at 30 with no status, placed in an
  empty store.
\<close>

theorem order_round_trip_witness:
  "validate_Order
     \<lparr>o_user_id = Given (asc ''u1''), o_symbol = Given (asc ''2222''),
       o_side = Given (asc ''buy''), o_quantity = Given (Float 10 0),
       o_price = Given (Float 30 0), o_status = Missing\<rparr> =
   Inr \<lparr>Order.user_id = asc ''u1'', Order.symbol = asc ''2222'', side = asc ''buy'',
        Order.quantity = Float 10 0, price = Float 30 0, status = asc ''submitted''\<rparr> \<and>
   (\<exists>resp st' limit docs.
      place_order sample_str (Some \<lparr>collections = (\<lambda>c. []), next_id = 0\<rparr>)
        \<lparr>Order.user_id = asc ''u1'', Order.symbol = asc ''2222'', side = asc ''buy'',
          Order.quantity = Float 10 0, price = Float 30 0, status = asc ''submitted''\<rparr> =
        Inr (resp, st') \<and>
      list_orders sample_str (Some st') limit = Inr docs \<and>
      (\<exists>doc \<in> set docs.
         has_order_fields
           \<lparr>Order.user_id = asc ''u1'', Order.symbol = asc ''2222'', side = asc ''buy'',
             Order.quantity = Float 10 0, price = Float 30 0, status = asc ''submitted''\<rparr> doc))"
  using order_round_trip
    [of "\<lparr>o_user_id = Given (asc ''u1''), o_symbol = Given (asc ''2222''),
           o_side = Given (asc ''buy''), o_quantity = Given (Float 10 0),
           o_price = Given (Float 30 0), o_status = Missing\<rparr>"
        "\<lparr>Order.user_id = asc ''u1'', Order.symbol = asc ''2222'', side = asc ''buy'',
           Order.quantity = Float 10 0, price = Float 30 0, status = asc ''submitted''\<rparr>"
        sample_str "\<lparr>collections = (\<lambda>c. []), next_id = 0\<rparr>"]
    sample_order_valid
  by blast

end
